theory Spec2Isabelle
  imports
    Main
    "HOL-Library.Multiset"
    "HOL-Library.Char_ord"
    "HOL-Library.List_Lexorder"
begin

section \<open>The package manifest generator (generators/init\_file.py)\<close>

text \<open>
  \<^verbatim>\<open>InitFileGenerator\<close> collects \<^verbatim>\<open>from ... import ...\<close> statements and renders
  them, followed by an \<^verbatim>\<open>__all__\<close> assignment, as a Python \<^verbatim>\<open>ast.Module\<close>.
  The nodes of Python's \<^verbatim>\<open>ast\<close> that the generator builds are datatypes here.
  Python strings are \<open>string\<close>, lists of 8-bit characters; their order is the
  lexicographic order on the character codes (\<open>Char_ord\<close>, \<open>List_Lexorder\<close>), which
  is the order \<^verbatim>\<open>list.sort()\<close> uses on \<^verbatim>\<open>str\<close>: code point by code point, a proper
  prefix first.
\<close>

subsection \<open>Syntax tree nodes\<close>

datatype alias_node = Alias (name: string)

datatype expr =
    Name (id: string)
  | Constant (const_value: string)
  | ListExpr (elts: "expr list")
  | Tuple (elts: "expr list")
  | Subscript (subscript_value: expr) (slice: expr)

datatype stmt =
    ImportFrom (module: string) (names: "alias_node list") (level: int)
  | Assign (targets: "expr list") (assign_value: expr) (lineno: int)

text \<open>
  Reading \<^verbatim>\<open>node.names\<close> succeeds on an \<^verbatim>\<open>ImportFrom\<close> node only: an
  \<^verbatim>\<open>Assign\<close> node has no such attribute and Python raises \<^verbatim>\<open>AttributeError\<close>.
\<close>

datatype error = AttributeError string

fun get_names :: "stmt \<Rightarrow> error + alias_node list" where
  "get_names (ImportFrom m ns l) = Inr ns"
| "get_names (Assign ts v l) = Inl (AttributeError ''names'')"

subsection \<open>The store of list objects\<close>

text \<open>
  \<^verbatim>\<open>Module(body=self.imports, ...)\<close> stores a reference to the generator's own list,
  and \<^verbatim>\<open>module.body.append\<close> mutates that list. List objects therefore live in a
  store, and a generator and a module hold addresses.
\<close>

type_synonym addr = nat

record store =
  cells :: "addr \<rightharpoonup> stmt list"
  fresh :: addr

definition empty_store :: store where
  "empty_store = \<lparr>cells = Map.empty, fresh = 0\<rparr>"

definition alloc :: "stmt list \<Rightarrow> store \<Rightarrow> addr \<times> store" where
  "alloc xs s = (fresh s, \<lparr>cells = (cells s)(fresh s \<mapsto> xs), fresh = Suc (fresh s)\<rparr>)"

text \<open>
  Every address that a generator or a module holds was allocated by \<open>alloc\<close>; reading
  an address that was never allocated gives the empty list.
\<close>

definition deref :: "store \<Rightarrow> addr \<Rightarrow> stmt list" where
  "deref s a = (case cells s a of Some xs \<Rightarrow> xs | None \<Rightarrow> [])"

definition list_append :: "addr \<Rightarrow> stmt \<Rightarrow> store \<Rightarrow> store" where
  "list_append a x s = s\<lparr>cells := (cells s)(a \<mapsto> deref s a @ [x])\<rparr>"

subsection \<open>The generator\<close>

record InitFileGenerator =
  imports' :: addr

type_synonym type_ignore = "int \<times> string"

record Module =
  body :: addr
  type_ignores :: "type_ignore list"

text \<open>\<^verbatim>\<open>__init__\<close>: \<^verbatim>\<open>self.imports = []\<close>, a new list object.\<close>

definition init :: "store \<Rightarrow> InitFileGenerator \<times> store" where
  "init s = (let (a, s') = alloc [] s in (\<lparr>imports' = a\<rparr>, s'))"

text \<open>
  Modelled from the spec: \<^verbatim>\<open>generate_import_from\<close> of \<^verbatim>\<open>generators/utils.py\<close> is
  not among the sources. An import request is \<open>{names, from_module, relative_level}\<close>
  (ImportSpec), and \<^verbatim>\<open>generate\<close> reads \<^verbatim>\<open>import_.names\<close> and \<^verbatim>\<open>n.name\<close> of the node
  it returns: the node is an \<^verbatim>\<open>ImportFrom\<close> of the module with one \<^verbatim>\<open>alias\<close> per
  name, in the order given.
\<close>

definition generate_import_from :: "string list \<Rightarrow> string \<Rightarrow> int \<Rightarrow> stmt" where
  "generate_import_from names' from' level' = ImportFrom from' (map Alias names') level'"

text \<open>
  \<^verbatim>\<open>
  def add_import(self, names: list[str], from_: str, level: int = 0) -> None:
      self.imports.append(generate_import_from(names=names, from_=from_, level=level))
  \<close>
\<close>

definition add_import ::
  "InitFileGenerator \<Rightarrow> string list \<Rightarrow> string \<Rightarrow> int \<Rightarrow> store \<Rightarrow> store" where
  "add_import self names' from' level' s =
     list_append (imports' self) (generate_import_from names' from' level') s"

text \<open>
  The loop of \<^verbatim>\<open>generate\<close>:
  \<^verbatim>\<open>
  for import_ in self.imports:
      constants_names.extend([n.name for n in import_.names])
  \<close>
  The accumulator is \<^verbatim>\<open>constants_names\<close>; the first node without \<^verbatim>\<open>names\<close>
  ends the loop with the exception.
\<close>

fun collect_names :: "stmt list \<Rightarrow> string list \<Rightarrow> error + string list" where
  "collect_names [] constants_names = Inr constants_names"
| "collect_names (import' # rest) constants_names =
     (case get_names import' of
        Inl e \<Rightarrow> Inl e
      | Inr ns \<Rightarrow> collect_names rest (constants_names @ map name ns))"

text \<open>
  \<^verbatim>\<open>
  def generate(self) -> Module:
      module = Module(body=self.imports, type_ignores=[])
      if self.imports:
          constants_names: list[str] = []
          for import_ in self.imports: ...
          constants_names.sort()
          module.body.append(
              Assign(targets=[Name(id="__all__")],
                     value=List(elts=[Constant(value=n) for n in constants_names]),
                     lineno=len(self.imports) + 1))
      return module
  \<close>
  The \<^verbatim>\<open>Assign\<close> node, with its \<^verbatim>\<open>lineno\<close>, is built before \<^verbatim>\<open>append\<close> runs.
  An exception leaves the store as it was.
\<close>

definition all_assign :: "string list \<Rightarrow> int \<Rightarrow> stmt" where
  "all_assign constants_names n =
     Assign [Name ''__all__''] (ListExpr (map Constant constants_names)) n"

definition generate :: "InitFileGenerator \<Rightarrow> store \<Rightarrow> (error + Module) \<times> store" where
  "generate self s =
     (let module' = \<lparr>body = imports' self, type_ignores = []\<rparr> in
      if deref s (imports' self) \<noteq> [] then
        (case collect_names (deref s (imports' self)) [] of
           Inl e \<Rightarrow> (Inl e, s)
         | Inr constants_names \<Rightarrow>
             (Inr module',
              list_append (body module')
                (all_assign (sort constants_names)
                   (int (length (deref s (imports' self))) + 1)) s))
      else (Inr module', s))"

subsection \<open>Running a generator\<close>

text \<open>
  One \<^verbatim>\<open>add_import\<close> call is its three arguments; a generation run creates a
  generator in the empty store and makes the calls in order.
\<close>

type_synonym import_call = "string list \<times> string \<times> int"

fun add_imports :: "InitFileGenerator \<Rightarrow> import_call list \<Rightarrow> store \<Rightarrow> store" where
  "add_imports self [] s = s"
| "add_imports self ((ns, from', lv) # calls) s =
     add_imports self calls (add_import self ns from' lv s)"

definition run_imports :: "import_call list \<Rightarrow> InitFileGenerator \<times> store" where
  "run_imports calls = (let (g, s) = init empty_store in (g, add_imports g calls s))"

text \<open>The statements of a module, read through the store.\<close>

definition module_body :: "store \<Rightarrow> Module \<Rightarrow> stmt list" where
  "module_body s m = deref s (body m)"

text \<open>
  The name lists of the \<^verbatim>\<open>__all__\<close> assignments of a module body, one list per
  assignment, and its import statements.
\<close>

fun constant_values :: "expr list \<Rightarrow> string list" where
  "constant_values [] = []"
| "constant_values (Constant v # es) = v # constant_values es"
| "constant_values (e # es) = constant_values es"

fun all_lists :: "stmt list \<Rightarrow> string list list" where
  "all_lists [] = []"
| "all_lists (Assign ts (ListExpr es) l # rest) =
     (if ts = [Name ''__all__''] then constant_values es # all_lists rest
      else all_lists rest)"
| "all_lists (st # rest) = all_lists rest"

fun import_stmts :: "stmt list \<Rightarrow> stmt list" where
  "import_stmts [] = []"
| "import_stmts (ImportFrom m ns l # rest) = ImportFrom m ns l # import_stmts rest"
| "import_stmts (Assign ts v l # rest) = import_stmts rest"

text \<open>The whole run: the calls, then \<^verbatim>\<open>generate\<close>; the result and the final store.\<close>

definition generate_run :: "import_call list \<Rightarrow> (error + Module) \<times> store" where
  "generate_run calls = (let (g, s) = run_imports calls in generate g s)"

definition import_of :: "import_call \<Rightarrow> stmt" where
  "import_of c = (case c of (ns, from', lv) \<Rightarrow> generate_import_from ns from' lv)"

definition called_names :: "import_call list \<Rightarrow> string list" where
  "called_names calls = concat (map fst calls)"

text \<open>The statements of the module that a run returns, or the exception it raised.\<close>

definition manifest :: "import_call list \<Rightarrow> error + stmt list" where
  "manifest calls =
     (case generate_run calls of
        (Inl e, s) \<Rightarrow> Inl e
      | (Inr m, s) \<Rightarrow> Inr (module_body s m))"

text \<open>Two calls of \<^verbatim>\<open>generate\<close> on the same generator, one after the other.\<close>

definition generate_twice ::
  "import_call list \<Rightarrow> (error + Module) \<times> (error + Module) \<times> store" where
  "generate_twice calls =
     (let (g, s) = run_imports calls;
          (r1, s1) = generate g s;
          (r2, s2) = generate g s1
      in (r1, r2, s2))"

section \<open>Union annotations (codegen.generate\_union\_annotation)\<close>

text \<open>
  The annotation of a union-typed field, as Python syntax. Of this part of the
  repository only \<^verbatim>\<open>tests/codegen/test_generated_unions.py\<close> is among the sources.
  A union-typed field is a \<open>UnionOf\<close> of its variants in declaration order, under
  one \<open>Optional\<close> when the field is nullable. The tests fix the syntax:
  \<^verbatim>\<open>Subscript(Name(UNION), Tuple(types))\<close>, and \<^verbatim>\<open>Subscript(Name(OPTIONAL), ...)\<close>
  around it when the flag is true.
\<close>

text \<open>
  Modelled from the spec: the constant \<^verbatim>\<open>OPTIONAL\<close> of \<^verbatim>\<open>client_generators/constants.py\<close>
  is not among the sources; it names the \<open>Optional\<close> node.
\<close>

definition OPTIONAL :: string where
  "OPTIONAL = ''Optional''"

text \<open>
  Modelled from the spec: the constant \<^verbatim>\<open>UNION\<close> of \<^verbatim>\<open>client_generators/constants.py\<close>
  is not among the sources; it names the \<open>UnionOf\<close> node.
\<close>

definition UNION :: string where
  "UNION = ''Union''"

text \<open>
  Modelled from the spec: \<^verbatim>\<open>generate_union_annotation(types, nullable)\<close> is not among
  the sources. It builds \<^verbatim>\<open>Union[types]\<close> and, when \<^verbatim>\<open>nullable\<close> holds, one
  \<^verbatim>\<open>Optional\<close> around it, as the two tests assert.
\<close>

definition generate_union_annotation :: "expr list \<Rightarrow> bool \<Rightarrow> expr" where
  "generate_union_annotation types nullable =
     (let result = Subscript (Name UNION) (Tuple types)
      in if nullable then Subscript (Name OPTIONAL) result else result)"

text \<open>
  Reading an annotation: whether a node is \<^verbatim>\<open>Optional[...]\<close>, how many
  \<^verbatim>\<open>Optional\<close> layers sit on top of each other at the root, whether anywhere in the
  tree an \<^verbatim>\<open>Optional\<close> directly wraps an \<^verbatim>\<open>Optional\<close>, and the variants of the
  \<^verbatim>\<open>Union\<close> below the root's \<^verbatim>\<open>Optional\<close> layers.
\<close>

fun is_optional :: "expr \<Rightarrow> bool" where
  "is_optional (Subscript (Name n) inner) = (n = OPTIONAL)"
| "is_optional e = False"

fun optional_layers :: "expr \<Rightarrow> nat" where
  "optional_layers (Subscript (Name n) inner) =
     (if n = OPTIONAL then Suc (optional_layers inner) else 0)"
| "optional_layers e = 0"

fun optional_in_optional :: "expr \<Rightarrow> bool" where
  "optional_in_optional (Subscript v inner) =
     ((is_optional (Subscript v inner) \<and> is_optional inner)
      \<or> optional_in_optional v \<or> optional_in_optional inner)"
| "optional_in_optional (Tuple es) = list_ex optional_in_optional es"
| "optional_in_optional (ListExpr es) = list_ex optional_in_optional es"
| "optional_in_optional e = False"

fun union_variants :: "expr \<Rightarrow> expr list option" where
  "union_variants (Subscript (Name n) (Tuple es)) = (if n = UNION then Some es else None)"
| "union_variants (Subscript (Name n) inner) =
     (if n = OPTIONAL then union_variants inner else None)"
| "union_variants e = None"

section \<open>The runtime client contract (AsyncBaseClient)\<close>

text \<open>
  Python values as the client sees them: \<^verbatim>\<open>UNSET\<close> marks an absent entry and is
  distinct from the explicit null \<^verbatim>\<open>None\<close>. A mapping keeps its entries in order.
  An input record is the mapping of its fields, a field that was never set holding
  \<^verbatim>\<open>UNSET\<close>.
\<close>

datatype pyvalue =
    UNSET
  | PyNone
  | PyBool bool
  | PyInt int
  | PyStr string
  | PyList "pyvalue list"
  | PyDict "(string \<times> pyvalue) list"

subsection \<open>Serializing variables\<close>

text \<open>
  Modelled from the spec: \<^verbatim>\<open>AsyncBaseClient.execute\<close> is not among the sources; only
  its tests are. Variable serialization recursively strips absent (unset) entries at
  every nesting level, inside nested records and inside list elements, and preserves
  explicit-null entries. The request carries
  \<open>{query: operation_text, variables: <serialized variables>}\<close>.
\<close>

fun strip_unset :: "pyvalue \<Rightarrow> pyvalue" where
  "strip_unset (PyDict kvs) =
     PyDict (map (\<lambda>(k, v). (k, strip_unset v)) (filter (\<lambda>(k, v). v \<noteq> UNSET) kvs))"
| "strip_unset (PyList xs) = PyList (map strip_unset xs)"
| "strip_unset v = v"

text \<open>
  Modelled from the spec: the structured payload of \<^verbatim>\<open>execute(operation_text, variables)\<close>,
  \<open>{query: operation_text, variables: <serialized variables with absent entries stripped>}\<close>.
\<close>

definition execute_payload :: "string \<Rightarrow> (string \<times> pyvalue) list \<Rightarrow> pyvalue" where
  "execute_payload query variables =
     PyDict [(''query'', PyStr query), (''variables'', strip_unset (PyDict variables))]"

text \<open>
  Whether some mapping, at any depth of a value, has an entry whose value is
  \<^verbatim>\<open>UNSET\<close>; and the value found by following keys and list positions.
\<close>

fun has_unset_entry :: "pyvalue \<Rightarrow> bool" where
  "has_unset_entry (PyDict kvs) = list_ex (\<lambda>(k, v). v = UNSET \<or> has_unset_entry v) kvs"
| "has_unset_entry (PyList xs) = list_ex has_unset_entry xs"
| "has_unset_entry v = False"

datatype step = Key string | Index nat

fun lookup_path :: "pyvalue \<Rightarrow> step list \<Rightarrow> pyvalue option" where
  "lookup_path v [] = Some v"
| "lookup_path (PyDict kvs) (Key k # p) =
     (case map_of kvs k of None \<Rightarrow> None | Some v \<Rightarrow> lookup_path v p)"
| "lookup_path (PyList xs) (Index i # p) =
     (if i < length xs then lookup_path (xs ! i) p else None)"
| "lookup_path v (st # p) = None"

text \<open>
  The values that are neither absent nor a container: null, booleans, numbers and
  strings.
\<close>

fun is_scalar :: "pyvalue \<Rightarrow> bool" where
  "is_scalar PyNone = True"
| "is_scalar (PyBool b) = True"
| "is_scalar (PyInt i) = True"
| "is_scalar (PyStr s) = True"
| "is_scalar v = False"

subsection \<open>Reading a response\<close>

text \<open>
  Modelled from the spec: \<^verbatim>\<open>AsyncBaseClient.get_data\<close> and its exceptions are not
  among the sources; only their tests are. A non-2xx status fails with \<open>HttpError\<close>
  carrying the status code and the raw body, before the body is parsed. Then the body
  is parsed as structured data: \<open>InvalidResponseError\<close> if it is not parseable or
  lacks a \<open>data\<close> key (a parsed value that is not a mapping has no keys);
  \<open>GraphQLMultiError\<close> carrying all reported error entries if the \<open>errors\<close> entry
  is a list of one or more entries, also when \<open>data\<close> is present; otherwise the
  \<open>data\<close> value. The parser of the body is the transport library's and is a
  parameter: \<open>None\<close> is a body that does not parse.
\<close>

record Response =
  status_code :: int
  content :: string

text \<open>
  Modelled from the spec: the runtime errors of the taxonomy. \<open>HttpError\<close> carries
  the status code and the raw body, \<open>GraphQLMultiError\<close> all reported error entries.
\<close>

datatype client_error =
    HttpError int string
  | InvalidResponseError
  | GraphQLMultiError "pyvalue list"

text \<open>
  Modelled from the spec: a transport status is a success when it is 2xx.
\<close>

definition is_success :: "Response \<Rightarrow> bool" where
  "is_success response = (200 \<le> status_code response \<and> status_code response \<le> 299)"

text \<open>
  Modelled from the spec: \<^verbatim>\<open>get_data(response)\<close>, the checks in the order the spec
  gives them: status, parse, \<open>data\<close> key, \<open>errors\<close>.
\<close>

definition get_data :: "(string \<Rightarrow> pyvalue option) \<Rightarrow> Response \<Rightarrow> client_error + pyvalue" where
  "get_data parse response =
     (if \<not> is_success response
      then Inl (HttpError (status_code response) (content response))
      else
        (case parse (content response) of
           None \<Rightarrow> Inl InvalidResponseError
         | Some (PyDict kvs) \<Rightarrow>
             (case map_of kvs ''data'' of
                None \<Rightarrow> Inl InvalidResponseError
              | Some data \<Rightarrow>
                  (case map_of kvs ''errors'' of
                     Some (PyList (e # es)) \<Rightarrow> Inl (GraphQLMultiError (e # es))
                   | _ \<Rightarrow> Inr data))
         | Some _ \<Rightarrow> Inl InvalidResponseError))"

text \<open>
  Reading a parsed body: the value under its \<open>data\<close> key, if the body is a mapping
  with that key, and the entries of its \<open>errors\<close> list, none if there is no such
  list.
\<close>

definition data_of :: "pyvalue \<Rightarrow> pyvalue option" where
  "data_of v = (case v of PyDict kvs \<Rightarrow> map_of kvs ''data'' | _ \<Rightarrow> None)"

definition reported_errors :: "pyvalue \<Rightarrow> pyvalue list" where
  "reported_errors v =
     (case v of
        PyDict kvs \<Rightarrow> (case map_of kvs ''errors'' of Some (PyList es) \<Rightarrow> es | _ \<Rightarrow> [])
      | _ \<Rightarrow> [])"

text \<open>
  A parser for the examples below. It knows six bodies, by name, and parses nothing
  else: a body with empty \<open>data\<close>, one without a \<open>data\<close> key, one that is a string
  and no mapping, bodies whose \<open>errors\<close> are null and the empty list, and a body with
  \<open>data\<close> and one error.
\<close>

definition sample_parse :: "string \<Rightarrow> pyvalue option" where
  "sample_parse b =
     (if b = ''empty_data'' then Some (PyDict [(''data'', PyDict [])])
      else if b = ''not_data'' then Some (PyDict [(''not_data'', PyStr '''')])
      else if b = ''string'' then Some (PyStr ''invalid_json'')
      else if b = ''errors_null'' then Some (PyDict [(''errors'', PyNone), (''data'', PyDict [])])
      else if b = ''errors_empty'' then Some (PyDict [(''errors'', PyList []), (''data'', PyDict [])])
      else if b = ''one_error'' then
        Some (PyDict [(''data'', PyDict [(''node'', PyInt 1)]),
                      (''errors'', PyList [PyDict [(''message'', PyStr ''boom'')]])])
      else None)"

section \<open>Properties of the package manifest\<close>

subsection \<open>What a run computes\<close>

text \<open>
  After the calls, the generator's list holds one \<^verbatim>\<open>ImportFrom\<close> per call, in call
  order; \<^verbatim>\<open>generate\<close> then appends the \<^verbatim>\<open>__all__\<close> assignment to that same list.
\<close>

lemma add_imports_cells:
  "cells s (imports' g) = Some xs \<Longrightarrow>
   add_imports g calls s = s\<lparr>cells := (cells s)(imports' g \<mapsto> xs @ map import_of calls)\<rparr>"
proof (induction calls arbitrary: s xs)
  case Nil
  then show ?case by (simp add: fun_upd_idem)
next
  case (Cons c calls)
  obtain ns f lv where c: "c = (ns, f, lv)" by (cases c)
  let ?s = "add_import g ns f lv s"
  have step: "?s = s\<lparr>cells := (cells s)(imports' g \<mapsto> xs @ [import_of c])\<rparr>"
    using Cons.prems by (simp add: c add_import_def list_append_def deref_def import_of_def)
  have "add_imports g (c # calls) s = add_imports g calls ?s"
    by (simp add: c)
  also have "\<dots> = ?s\<lparr>cells := (cells ?s)(imports' g \<mapsto> (xs @ [import_of c]) @ map import_of calls)\<rparr>"
    by (rule Cons.IH) (simp add: step)
  also have "\<dots> = s\<lparr>cells := (cells s)(imports' g \<mapsto> xs @ map import_of (c # calls))\<rparr>"
    by (simp add: step)
  finally show ?case .
qed

lemma run_imports_eq:
  "run_imports calls = (\<lparr>imports' = 0\<rparr>, \<lparr>cells = [0 \<mapsto> map import_of calls], fresh = Suc 0\<rparr>)"
  by (simp add: run_imports_def init_def alloc_def empty_store_def add_imports_cells)

lemma collect_names_imports:
  "collect_names (map import_of calls) acc = Inr (acc @ called_names calls)"
  by (induction calls arbitrary: acc)
     (auto simp: called_names_def import_of_def generate_import_from_def comp_def)

lemma generate_run_nonempty:
  "calls \<noteq> [] \<Longrightarrow>
   generate_run calls =
     (Inr \<lparr>body = 0, type_ignores = []\<rparr>,
      \<lparr>cells = [0 \<mapsto> map import_of calls @
                 [all_assign (sort (called_names calls)) (int (length calls) + 1)]],
       fresh = Suc 0\<rparr>)"
  by (simp add: generate_run_def run_imports_eq generate_def deref_def collect_names_imports
      list_append_def)

lemma generate_run_empty:
  "generate_run [] = (Inr \<lparr>body = 0, type_ignores = []\<rparr>, \<lparr>cells = [0 \<mapsto> []], fresh = Suc 0\<rparr>)"
  by (simp add: generate_run_def run_imports_eq generate_def deref_def)

lemma manifest_nonempty:
  "calls \<noteq> [] \<Longrightarrow>
   manifest calls =
     Inr (map import_of calls @ [all_assign (sort (called_names calls)) (int (length calls) + 1)])"
  by (simp add: manifest_def generate_run_nonempty module_body_def deref_def)

lemma manifest_empty: "manifest [] = Inr []"
  by (simp add: manifest_def generate_run_empty module_body_def deref_def)

lemma constant_values_Constant: "constant_values (map Constant ns) = ns"
  by (induction ns) simp_all

lemma all_lists_imports: "all_lists (map import_of calls @ rest) = all_lists rest"
  by (induction calls) (simp_all add: import_of_def generate_import_from_def split: prod.splits)

lemma import_stmts_imports:
  "import_stmts (map import_of calls @ rest) = map import_of calls @ import_stmts rest"
  by (induction calls) (simp_all add: import_of_def generate_import_from_def split: prod.splits)

lemma all_lists_manifest_body:
  "all_lists (map import_of calls @ [all_assign ns n]) = [ns]"
  by (simp add: all_lists_imports all_assign_def constant_values_Constant)

lemma import_stmts_manifest_body:
  "import_stmts (map import_of calls @ [all_assign ns n]) = map import_of calls"
  by (simp add: import_stmts_imports all_assign_def)

lemma mset_called_names:
  "mset calls1 = mset calls2 \<Longrightarrow> mset (called_names calls1) = mset (called_names calls2)"
  by (metis called_names_def mset_concat mset_map sum_mset_sum_list)

lemma sort_called_names:
  assumes "mset calls1 = mset calls2"
  shows "sort (called_names calls1) = sort (called_names calls2)"
  by (rule properties_for_sort) (simp_all add: mset_called_names [OF assms])

lemma collect_names_all_assign:
  "collect_names (map import_of calls @ all_assign ns n # rest) acc = Inl (AttributeError ''names'')"
  by (induction calls arbitrary: acc)
     (auto simp: import_of_def generate_import_from_def all_assign_def)

subsection \<open>The claims about the manifest\<close>

text \<open>
  C5. After a non-empty sequence of \<^verbatim>\<open>add_import\<close> calls, \<^verbatim>\<open>generate\<close> returns a
  module with exactly one \<^verbatim>\<open>__all__\<close> assignment, and its name list is sorted
  lexicographically, whatever the order of the calls; the list holds the names of the
  calls, each as often as it was added.
\<close>

theorem all_list_sorted:
  assumes "calls \<noteq> []"
  shows "\<exists>body' ns. manifest calls = Inr body' \<and> all_lists body' = [ns] \<and> sorted ns
           \<and> mset ns = mset (called_names calls)"
  using assms by (simp add: manifest_nonempty all_lists_manifest_body)

theorem all_list_sorted_witness:
  "[([''B'', ''A''], ''m1'', 0), ([''C''], ''m2'', 1)] \<noteq> ([] :: import_call list) \<and>
   (\<exists>body' ns. manifest [([''B'', ''A''], ''m1'', 0), ([''C''], ''m2'', 1)] = Inr body'
       \<and> all_lists body' = [ns] \<and> sorted ns
       \<and> mset ns = mset (called_names [([''B'', ''A''], ''m1'', 0), ([''C''], ''m2'', 1)]))"
  using all_list_sorted [of "[([''B'', ''A''], ''m1'', 0), ([''C''], ''m2'', 1)]"] by simp

text \<open>
  C1, as stated, fails. Two modules export the same name \<open>A\<close>: \<^verbatim>\<open>generate\<close>
  raises nothing and returns the module, whose \<^verbatim>\<open>__all__\<close> lists \<open>A\<close> twice.
\<close>

theorem duplicate_export_counterexample:
  "manifest [([''A''], ''m1'', 0), ([''A''], ''m2'', 0)] =
     Inr [ImportFrom ''m1'' [Alias ''A''] 0, ImportFrom ''m2'' [Alias ''A''] 0,
          Assign [Name ''__all__''] (ListExpr [Constant ''A'', Constant ''A'']) 3]
   \<and> all_lists [ImportFrom ''m1'' [Alias ''A''] 0, ImportFrom ''m2'' [Alias ''A''] 0,
          Assign [Name ''__all__''] (ListExpr [Constant ''A'', Constant ''A'']) 3] = [[''A'', ''A'']]
   \<and> \<not> distinct [''A'', ''A'']"
  by (simp add: manifest_def generate_run_def run_imports_def init_def alloc_def empty_store_def
    add_import_def list_append_def deref_def generate_import_from_def generate_def all_assign_def
    module_body_def)

text \<open>
  C1, amended. \<^verbatim>\<open>generate\<close> never fails on the imports of a run: there is no check
  for colliding names. The names of \<^verbatim>\<open>__all__\<close> are the names of the calls, each as
  often as it was added, in sorted order, so \<^verbatim>\<open>__all__\<close> is free of duplicates
  exactly when no name was added twice.
\<close>

theorem all_list_duplicates:
  "\<exists>body'. manifest calls = Inr body'
      \<and> mset (concat (all_lists body')) = mset (called_names calls)
      \<and> (distinct (concat (all_lists body')) \<longleftrightarrow> distinct (called_names calls))
      \<and> sorted (concat (all_lists body'))"
proof (cases "calls = []")
  case True
  then show ?thesis by (simp add: manifest_empty called_names_def)
next
  case False
  have "distinct (sort (called_names calls)) \<longleftrightarrow> distinct (called_names calls)"
    by simp
  with False show ?thesis
    by (simp add: manifest_nonempty all_lists_manifest_body)
qed

theorem all_list_duplicates_witness:
  "\<exists>body'. manifest [([''A'', ''B''], ''m1'', 0), ([''A''], ''m2'', 0)] = Inr body'
      \<and> mset (concat (all_lists body')) = mset [''A'', ''B'', ''A'']
      \<and> \<not> distinct (concat (all_lists body'))
      \<and> sorted (concat (all_lists body'))"
  using all_list_duplicates [of "[([''A'', ''B''], ''m1'', 0), ([''A''], ''m2'', 0)]"]
  by (simp add: called_names_def)

text \<open>
  C4, as stated, fails. The same two imports added in the two orders give two
  different modules: the import statements stand in the order of the calls.
\<close>

theorem manifest_order_counterexample:
  "mset [([''A''], ''a'', 0), ([''B''], ''b'', 0 :: int)] = mset [([''B''], ''b'', 0), ([''A''], ''a'', 0)]
   \<and> manifest [([''A''], ''a'', 0), ([''B''], ''b'', 0)] \<noteq> manifest [([''B''], ''b'', 0), ([''A''], ''a'', 0)]"
  by (simp add: manifest_def generate_run_def run_imports_def init_def alloc_def empty_store_def
    add_import_def list_append_def deref_def generate_import_from_def generate_def all_assign_def
    module_body_def)

text \<open>
  C4, amended. When two call sequences are permutations of each other, both runs
  return a module; each has its import statements in the order of its own calls, and
  what follows them, the \<^verbatim>\<open>__all__\<close> assignment with its sorted name list and line
  number, is the same in both. The two bodies hold the same statements, up to order.
\<close>

theorem manifest_permutation:
  assumes "mset calls1 = mset calls2"
  shows "\<exists>b1 b2. manifest calls1 = Inr b1 \<and> manifest calls2 = Inr b2
           \<and> import_stmts b1 = map import_of calls1
           \<and> import_stmts b2 = map import_of calls2
           \<and> drop (length calls1) b1 = drop (length calls2) b2
           \<and> all_lists b1 = all_lists b2
           \<and> mset b1 = mset b2"
proof (cases "calls1 = []")
  case True
  with assms have "calls2 = []" by simp
  with True show ?thesis by (simp add: manifest_empty)
next
  case False
  with assms have ne2: "calls2 \<noteq> []" by auto
  have len: "length calls1 = length calls2"
    using assms by (rule mset_eq_length)
  have imps: "mset (map import_of calls1) = mset (map import_of calls2)"
    using assms by simp
  show ?thesis
    using False ne2 imps
    by (simp add: manifest_nonempty all_lists_manifest_body import_stmts_manifest_body
        sort_called_names [OF assms] len)
qed

theorem manifest_permutation_witness:
  "mset [([''A''], ''a'', 0), ([''B''], ''b'', 0 :: int)] = mset [([''B''], ''b'', 0), ([''A''], ''a'', 0)] \<and>
   (\<exists>b1 b2. manifest [([''A''], ''a'', 0), ([''B''], ''b'', 0)] = Inr b1
      \<and> manifest [([''B''], ''b'', 0), ([''A''], ''a'', 0)] = Inr b2
      \<and> import_stmts b1 = [ImportFrom ''a'' [Alias ''A''] 0, ImportFrom ''b'' [Alias ''B''] 0]
      \<and> import_stmts b2 = [ImportFrom ''b'' [Alias ''B''] 0, ImportFrom ''a'' [Alias ''A''] 0]
      \<and> drop (length [([''A''], ''a'', 0 :: int), ([''B''], ''b'', 0)]) b1
          = drop (length [([''B''], ''b'', 0 :: int), ([''A''], ''a'', 0)]) b2
      \<and> all_lists b1 = all_lists b2
      \<and> mset b1 = mset b2)"
  using manifest_permutation
    [of "[([''A''], ''a'', 0), ([''B''], ''b'', 0)]" "[([''B''], ''b'', 0), ([''A''], ''a'', 0)]"]
  by (simp add: import_of_def generate_import_from_def)

text \<open>
  C8. With no \<^verbatim>\<open>add_import\<close> call, \<^verbatim>\<open>generate\<close> returns a module and raises
  nothing; the module's body is empty (no import statement, no \<^verbatim>\<open>__all__\<close>), and the
  store is left as it was. This holds for a generator created in any store.
\<close>

theorem generate_without_imports:
  "manifest [] = Inr [] \<and>
   (case init s0 of (g, s) \<Rightarrow>
      generate g s = (Inr \<lparr>body = imports' g, type_ignores = []\<rparr>, s)
      \<and> module_body s \<lparr>body = imports' g, type_ignores = []\<rparr> = [])"
  by (simp add: manifest_empty init_def alloc_def generate_def deref_def module_body_def)

text \<open>
  C10, as stated, fails. After one import, the first \<^verbatim>\<open>generate\<close> returns the
  module; the second returns no module: it raises \<^verbatim>\<open>AttributeError\<close>, and the list
  still holds one \<^verbatim>\<open>__all__\<close> assignment.
\<close>

theorem generate_twice_counterexample:
  "fst (generate_twice [([''A''], ''m'', 0)]) = Inr \<lparr>body = 0, type_ignores = []\<rparr>
   \<and> fst (snd (generate_twice [([''A''], ''m'', 0)])) = Inl (AttributeError ''names'')
   \<and> deref (snd (snd (generate_twice [([''A''], ''m'', 0)]))) 0 =
       [ImportFrom ''m'' [Alias ''A''] 0, Assign [Name ''__all__''] (ListExpr [Constant ''A'']) 2]"
  by (simp add: generate_twice_def generate_run_def run_imports_def init_def alloc_def empty_store_def
    add_import_def list_append_def deref_def generate_import_from_def generate_def all_assign_def
    module_body_def)

text \<open>
  C10, amended. \<^verbatim>\<open>generate\<close> mutates the generator: for a generator with at least
  one added import, the returned module's body is the generator's own list (the same
  address), and the \<^verbatim>\<open>__all__\<close> assignment is appended to that list. A second call
  therefore finds the \<^verbatim>\<open>Assign\<close> node among the imports and raises
  \<^verbatim>\<open>AttributeError\<close> on reading its \<^verbatim>\<open>names\<close>; it returns no module and appends
  nothing, so the list keeps exactly one \<^verbatim>\<open>__all__\<close> assignment.
\<close>

theorem generate_second_call:
  assumes "calls \<noteq> []"
    and "run_imports calls = (g, s)"
    and "generate g s = (r1, s1)"
    and "generate g s1 = (r2, s2)"
  shows "r1 = Inr \<lparr>body = imports' g, type_ignores = []\<rparr>
       \<and> deref s (imports' g) = map import_of calls
       \<and> deref s1 (imports' g) =
           map import_of calls @ [all_assign (sort (called_names calls)) (int (length calls) + 1)]
       \<and> r2 = Inl (AttributeError ''names'')
       \<and> s2 = s1
       \<and> all_lists (deref s2 (imports' g)) = [sort (called_names calls)]"
proof -
  from assms(2) have g: "g = \<lparr>imports' = 0\<rparr>"
    and s: "s = \<lparr>cells = [0 \<mapsto> map import_of calls], fresh = Suc 0\<rparr>"
    by (simp_all add: run_imports_eq)
  let ?a = "all_assign (sort (called_names calls)) (int (length calls) + 1)"
  from assms(1,3) have r1: "r1 = Inr \<lparr>body = 0, type_ignores = []\<rparr>"
    and s1: "s1 = \<lparr>cells = [0 \<mapsto> map import_of calls @ [?a]], fresh = Suc 0\<rparr>"
    by (simp_all add: g s generate_def deref_def collect_names_imports list_append_def)
  from assms(4) have r2: "r2 = Inl (AttributeError ''names'')" and s2: "s2 = s1"
    by (simp_all add: g s1 generate_def deref_def collect_names_all_assign)
  show ?thesis
    by (simp add: g s r1 s1 r2 s2 deref_def all_lists_manifest_body)
qed

theorem generate_second_call_witness:
  "[([''B'', ''A''], ''m'', 0)] \<noteq> ([] :: import_call list) \<and>
   fst (generate_twice [([''B'', ''A''], ''m'', 0)]) = Inr \<lparr>body = 0, type_ignores = []\<rparr> \<and>
   fst (snd (generate_twice [([''B'', ''A''], ''m'', 0)])) = Inl (AttributeError ''names'') \<and>
   all_lists (deref (snd (snd (generate_twice [([''B'', ''A''], ''m'', 0)]))) 0) = [[''A'', ''B'']]"
proof -
  let ?calls = "[([''B'', ''A''], ''m'', 0 :: int)]"
  obtain g s where 1: "run_imports ?calls = (g, s)" by (cases "run_imports ?calls")
  obtain r1 s1 where 2: "generate g s = (r1, s1)" by (cases "generate g s")
  obtain r2 s2 where 3: "generate g s1 = (r2, s2)" by (cases "generate g s1")
  have ne: "?calls \<noteq> []" by simp
  have g: "imports' g = 0" using 1 by (auto simp: run_imports_eq)
  from generate_second_call [OF ne 1 2 3] g show ?thesis
    by (simp add: generate_twice_def 1 2 3 called_names_def import_of_def
        generate_import_from_def all_assign_def)
qed

section \<open>Properties of union annotations\<close>

lemma not_optional_in_optional_names:
  "\<not> list_ex optional_in_optional (map Name names')"
  by (induction names') simp_all

text \<open>
  C9. For two or more variant type names, the annotation of a nullable union is
  \<^verbatim>\<open>Optional[Union[...]]\<close>: one \<^verbatim>\<open>Optional\<close> layer, no \<^verbatim>\<open>Optional\<close> directly
  around another anywhere in it, and the variants of the \<^verbatim>\<open>Union\<close> are the given
  names in the given order. With the flag false the annotation is the
  \<^verbatim>\<open>Union[...]\<close> alone, with no \<^verbatim>\<open>Optional\<close> layer.
\<close>

theorem union_annotation_optional_once:
  assumes "2 \<le> length names'"
  shows "generate_union_annotation (map Name names') True
           = Subscript (Name OPTIONAL) (Subscript (Name UNION) (Tuple (map Name names')))
       \<and> optional_layers (generate_union_annotation (map Name names') True) = 1
       \<and> \<not> optional_in_optional (generate_union_annotation (map Name names') True)
       \<and> union_variants (generate_union_annotation (map Name names') True) = Some (map Name names')
       \<and> generate_union_annotation (map Name names') False
           = Subscript (Name UNION) (Tuple (map Name names'))
       \<and> optional_layers (generate_union_annotation (map Name names') False) = 0
       \<and> \<not> optional_in_optional (generate_union_annotation (map Name names') False)
       \<and> union_variants (generate_union_annotation (map Name names') False) = Some (map Name names')"
  by (simp add: generate_union_annotation_def OPTIONAL_def UNION_def not_optional_in_optional_names)

theorem union_annotation_optional_once_witness:
  "2 \<le> length [''Xyz1'', ''Xyz2'']
   \<and> generate_union_annotation [Name ''Xyz1'', Name ''Xyz2''] True
       = Subscript (Name ''Optional'') (Subscript (Name ''Union'') (Tuple [Name ''Xyz1'', Name ''Xyz2'']))
   \<and> optional_layers (generate_union_annotation [Name ''Xyz1'', Name ''Xyz2''] True) = 1
   \<and> \<not> optional_in_optional (generate_union_annotation [Name ''Xyz1'', Name ''Xyz2''] True)
   \<and> union_variants (generate_union_annotation [Name ''Xyz1'', Name ''Xyz2''] True)
       = Some [Name ''Xyz1'', Name ''Xyz2'']
   \<and> generate_union_annotation [Name ''Xyz1'', Name ''Xyz2''] False
       = Subscript (Name ''Union'') (Tuple [Name ''Xyz1'', Name ''Xyz2''])"
  using union_annotation_optional_once [of "[''Xyz1'', ''Xyz2'']"]
  by (simp add: OPTIONAL_def UNION_def)

section \<open>Properties of the runtime client contract\<close>

subsection \<open>Stripping absent entries\<close>

lemma strip_unset_eq_UNSET: "strip_unset v = UNSET \<longleftrightarrow> v = UNSET"
  by (cases v) simp_all

lemma strip_unset_no_unset_entry: "\<not> has_unset_entry (strip_unset v)"
  by (induction v rule: strip_unset.induct) (auto simp: list_ex_iff strip_unset_eq_UNSET)

lemma strip_unset_unchanged: "\<not> has_unset_entry v \<Longrightarrow> strip_unset v = v"
proof (induction v rule: strip_unset.induct)
  case (1 kvs)
  have all: "\<And>k v. (k, v) \<in> set kvs \<Longrightarrow> v \<noteq> UNSET \<and> \<not> has_unset_entry v"
    using "1.prems" by (auto simp: list_ex_iff)
  have keep: "filter (\<lambda>(k, v). v \<noteq> UNSET) kvs = kvs"
    using all by (auto simp: filter_id_conv)
  have same: "\<And>k v. (k, v) \<in> set kvs \<Longrightarrow> strip_unset v = v"
    using "1.IH" all keep by auto
  have "map (\<lambda>(k, v). (k, strip_unset v)) kvs = kvs"
    using same by (intro map_idI) auto
  then show ?case by (simp add: keep)
next
  case (2 xs)
  then show ?case by (auto simp: list_ex_iff map_idI)
qed simp_all

lemma map_of_strip:
  "map_of kvs k = Some x \<Longrightarrow> x \<noteq> UNSET \<Longrightarrow>
   map_of (map (\<lambda>(k, v). (k, strip_unset v)) (filter (\<lambda>(k, v). v \<noteq> UNSET) kvs)) k
     = Some (strip_unset x)"
  by (induction kvs) (auto split: if_splits)

lemma lookup_path_UNSET: "lookup_path UNSET p = Some x \<Longrightarrow> x = UNSET"
  by (cases p) simp_all

lemma lookup_path_strip:
  "lookup_path v p = Some x \<Longrightarrow> x \<noteq> UNSET \<Longrightarrow>
   lookup_path (strip_unset v) p = Some (strip_unset x)"
proof (induction v p rule: lookup_path.induct)
  case (1 v)
  then show ?case by simp
next
  case (2 kvs k p)
  from "2.prems"(1) obtain w where w: "map_of kvs k = Some w" and l: "lookup_path w p = Some x"
    by (auto split: option.splits)
  from l "2.prems"(2) have "w \<noteq> UNSET" by (auto dest: lookup_path_UNSET)
  with w have "map_of (map (\<lambda>(k, v). (k, strip_unset v)) (filter (\<lambda>(k, v). v \<noteq> UNSET) kvs)) k
     = Some (strip_unset w)" by (rule map_of_strip)
  moreover from "2.IH" [OF w l "2.prems"(2)] have "lookup_path (strip_unset w) p = Some (strip_unset x)" .
  ultimately show ?case by simp
next
  case (3 xs i p)
  then show ?case by (auto split: if_splits)
qed simp_all

text \<open>
  What stripping does, read through paths: the keys of a mapping, an entry that is
  absent, the length of a list, and a scalar.
\<close>

lemma strip_unset_scalar: "is_scalar x \<Longrightarrow> strip_unset x = x"
  by (cases x) simp_all

lemma lookup_path_append:
  "lookup_path v (p @ q) = (case lookup_path v p of None \<Rightarrow> None | Some x \<Rightarrow> lookup_path x q)"
  by (induction v p rule: lookup_path.induct) (auto split: option.splits)

lemma fst_strip_entries:
  "map fst (map (\<lambda>(k, v). (k, strip_unset v)) kvs) = map fst kvs"
  by (induction kvs) auto

lemma map_of_strip_removed:
  assumes "distinct (map fst kvs)" and "map_of kvs k = Some UNSET"
  shows "map_of (map (\<lambda>(k, v). (k, strip_unset v)) (filter (\<lambda>(k, v). v \<noteq> UNSET) kvs)) k = None"
proof -
  have "k \<notin> fst ` set (filter (\<lambda>(k, v). v \<noteq> UNSET) kvs)"
  proof
    assume "k \<in> fst ` set (filter (\<lambda>(k, v). v \<noteq> UNSET) kvs)"
    then obtain v where in_kvs: "(k, v) \<in> set kvs" and v: "v \<noteq> UNSET" by auto
    from assms(1) in_kvs have "map_of kvs k = Some v" by (rule map_of_is_SomeI)
    with assms(2) v show False by simp
  qed
  then have "k \<notin> fst ` set (map (\<lambda>(k, v). (k, strip_unset v)) (filter (\<lambda>(k, v). v \<noteq> UNSET) kvs))"
    using fst_strip_entries [of "filter (\<lambda>(k, v). v \<noteq> UNSET) kvs"]
    by (metis set_map)
  then show ?thesis by (metis map_of_eq_None_iff)
qed

lemma lookup_payload:
  "lookup_path (execute_payload query variables) (Key ''variables'' # p)
     = lookup_path (strip_unset (PyDict variables)) p"
  by (simp add: execute_payload_def del: strip_unset.simps)

lemma strip_keys:
  assumes "lookup_path v p = Some (PyDict kvs)"
  shows "\<exists>kvs'. lookup_path (strip_unset v) p = Some (PyDict kvs')
           \<and> map fst kvs' = map fst (filter (\<lambda>(k, v). v \<noteq> UNSET) kvs)"
  using lookup_path_strip [OF assms] by (simp add: fst_strip_entries)

lemma strip_removed:
  assumes "lookup_path v p = Some (PyDict kvs)" and "distinct (map fst kvs)"
    and "map_of kvs k = Some UNSET"
  shows "lookup_path (strip_unset v) (p @ [Key k]) = None"
proof -
  have "lookup_path (strip_unset v) p = Some (strip_unset (PyDict kvs))"
    using lookup_path_strip [OF assms(1)] by simp
  then show ?thesis
    using map_of_strip_removed [OF assms(2,3)] by (simp add: lookup_path_append)
qed

lemma strip_list:
  assumes "lookup_path v p = Some (PyList xs)"
  shows "\<exists>ys. lookup_path (strip_unset v) p = Some (PyList ys) \<and> length ys = length xs"
  using lookup_path_strip [OF assms] by simp

lemma strip_scalar:
  assumes "lookup_path v p = Some x" and "is_scalar x"
  shows "lookup_path (strip_unset v) p = Some x"
proof -
  from assms(2) have "x \<noteq> UNSET" by auto
  from lookup_path_strip [OF assms(1) this] assms(2) show ?thesis
    by (simp add: strip_unset_scalar)
qed

text \<open>
  C2. For every variables mapping, in the payload that \<^verbatim>\<open>execute\<close> sends:
  no mapping at any depth has an entry whose value is \<^verbatim>\<open>UNSET\<close>; the keys of every
  mapping, at any depth, are the keys of its entries whose value is not \<^verbatim>\<open>UNSET\<close>, in
  their order, so that the key of an absent entry is no longer there; a list keeps its
  length; a scalar value, the explicit null among them, stays where it was, and every
  other entry that is not absent stays with the absent entries below it stripped.
  Variables without absent entries are sent unchanged. The spec's example:
  \<open>{a: UNSET, b: None, c: {d: UNSET, e: 1}}\<close> is sent as \<open>{b: None, c: {e: 1}}\<close>.
\<close>

theorem execute_strips_unset:
  "\<not> has_unset_entry (execute_payload query variables)
   \<and> (lookup_path (PyDict variables) p = Some (PyDict kvs) \<longrightarrow>
        (\<exists>kvs'. lookup_path (execute_payload query variables) (Key ''variables'' # p)
                   = Some (PyDict kvs')
               \<and> map fst kvs' = map fst (filter (\<lambda>(k, v). v \<noteq> UNSET) kvs)))
   \<and> (lookup_path (PyDict variables) p = Some (PyDict kvs) \<and> distinct (map fst kvs)
        \<and> map_of kvs k = Some UNSET \<longrightarrow>
        lookup_path (execute_payload query variables) (Key ''variables'' # p @ [Key k]) = None)
   \<and> (lookup_path (PyDict variables) p = Some (PyList xs) \<longrightarrow>
        (\<exists>ys. lookup_path (execute_payload query variables) (Key ''variables'' # p)
                   = Some (PyList ys)
             \<and> length ys = length xs))
   \<and> (lookup_path (PyDict variables) p = Some x \<and> is_scalar x \<longrightarrow>
        lookup_path (execute_payload query variables) (Key ''variables'' # p) = Some x)
   \<and> (lookup_path (PyDict variables) p = Some x \<and> x \<noteq> UNSET \<longrightarrow>
        lookup_path (execute_payload query variables) (Key ''variables'' # p) = Some (strip_unset x))
   \<and> (lookup_path (PyDict variables) p = Some PyNone \<longrightarrow>
        lookup_path (execute_payload query variables) (Key ''variables'' # p) = Some PyNone)
   \<and> (\<not> has_unset_entry (PyDict variables) \<longrightarrow>
        execute_payload query variables
          = PyDict [(''query'', PyStr query), (''variables'', PyDict variables)])
   \<and> execute_payload query
        [(''a'', UNSET), (''b'', PyNone), (''c'', PyDict [(''d'', UNSET), (''e'', PyInt 1)])]
      = PyDict [(''query'', PyStr query),
                (''variables'', PyDict [(''b'', PyNone), (''c'', PyDict [(''e'', PyInt 1)])])]"
proof -
  let ?v = "PyDict variables"
  let ?out = "\<lambda>q. lookup_path (execute_payload query variables) (Key ''variables'' # q)"
  have out: "?out q = lookup_path (strip_unset ?v) q" for q
    by (rule lookup_payload)
  have a: "\<not> has_unset_entry (execute_payload query variables)"
    using strip_unset_no_unset_entry [of ?v]
    by (simp add: execute_payload_def strip_unset_eq_UNSET del: strip_unset.simps)
  have keys: "\<exists>kvs'. ?out p = Some (PyDict kvs')
                \<and> map fst kvs' = map fst (filter (\<lambda>(k, v). v \<noteq> UNSET) kvs)"
    if "lookup_path ?v p = Some (PyDict kvs)"
    using strip_keys [OF that] by (simp only: out)
  have gone: "?out (p @ [Key k]) = None"
    if "lookup_path ?v p = Some (PyDict kvs)" "distinct (map fst kvs)" "map_of kvs k = Some UNSET"
    using strip_removed [OF that] by (simp only: out)
  have lists: "\<exists>ys. ?out p = Some (PyList ys) \<and> length ys = length xs"
    if "lookup_path ?v p = Some (PyList xs)"
    using strip_list [OF that] by (simp only: out)
  have scalars: "?out p = Some x" if "lookup_path ?v p = Some x" "is_scalar x"
    using strip_scalar [OF that] by (simp only: out)
  have b: "?out p = Some (strip_unset x)" if "lookup_path ?v p = Some x" "x \<noteq> UNSET" for x
    using lookup_path_strip [OF that] by (simp only: out)
  have c: "execute_payload query variables
          = PyDict [(''query'', PyStr query), (''variables'', PyDict variables)]"
    if "\<not> has_unset_entry ?v"
    using strip_unset_unchanged [OF that] by (simp add: execute_payload_def del: strip_unset.simps)
  have d: "execute_payload query
        [(''a'', UNSET), (''b'', PyNone), (''c'', PyDict [(''d'', UNSET), (''e'', PyInt 1)])]
      = PyDict [(''query'', PyStr query),
                (''variables'', PyDict [(''b'', PyNone), (''c'', PyDict [(''e'', PyInt 1)])])]"
    by (simp add: execute_payload_def)
  from b [of PyNone] have n: "lookup_path ?v p = Some PyNone \<Longrightarrow> ?out p = Some PyNone"
    by simp
  show ?thesis
    using a keys gone lists scalars b [of x] n c d by (intro conjI impI; (elim conjE)?; blast)
qed

theorem execute_strips_unset_witness:
  "lookup_path (PyDict [(''arg1'', UNSET), (''arg2'', UNSET), (''arg3'', PyNone), (''arg4'', PyInt 2)]) []
     = Some (PyDict [(''arg1'', UNSET), (''arg2'', UNSET), (''arg3'', PyNone), (''arg4'', PyInt 2)])
   \<and> distinct (map fst [(''arg1'', UNSET), (''arg2'', UNSET), (''arg3'', PyNone), (''arg4'', PyInt 2)])
   \<and> map_of [(''arg1'', UNSET), (''arg2'', UNSET), (''arg3'', PyNone), (''arg4'', PyInt 2)] ''arg1''
     = Some UNSET
   \<and> \<not> has_unset_entry (execute_payload ''q''
       [(''arg1'', UNSET), (''arg2'', UNSET), (''arg3'', PyNone), (''arg4'', PyInt 2)])
   \<and> (\<exists>kvs'. lookup_path (execute_payload ''q''
          [(''arg1'', UNSET), (''arg2'', UNSET), (''arg3'', PyNone), (''arg4'', PyInt 2)])
          [Key ''variables''] = Some (PyDict kvs')
        \<and> map fst kvs' = [''arg3'', ''arg4''])
   \<and> lookup_path (execute_payload ''q''
        [(''arg1'', UNSET), (''arg2'', UNSET), (''arg3'', PyNone), (''arg4'', PyInt 2)])
        [Key ''variables'', Key ''arg1''] = None
   \<and> lookup_path (PyDict [(''arg1'', UNSET), (''arg2'', UNSET), (''arg3'', PyNone), (''arg4'', PyInt 2)])
        [Key ''arg3''] = Some PyNone
   \<and> is_scalar PyNone
   \<and> lookup_path (execute_payload ''q''
        [(''arg1'', UNSET), (''arg2'', UNSET), (''arg3'', PyNone), (''arg4'', PyInt 2)])
        [Key ''variables'', Key ''arg3''] = Some PyNone
   \<and> lookup_path (PyDict [(''v1'', PyList [PyDict [(''a'', UNSET), (''b'', PyInt 1)]])])
        [Key ''v1'', Index 0] = Some (PyDict [(''a'', UNSET), (''b'', PyInt 1)])
   \<and> lookup_path (execute_payload ''q'' [(''v1'', PyList [PyDict [(''a'', UNSET), (''b'', PyInt 1)]])])
        [Key ''variables'', Key ''v1'', Index 0, Key ''a''] = None
   \<and> lookup_path (PyDict [(''v1'', PyList [PyDict [(''a'', UNSET), (''b'', PyInt 1)]])])
        [Key ''v1''] = Some (PyList [PyDict [(''a'', UNSET), (''b'', PyInt 1)]])
   \<and> (\<exists>ys. lookup_path (execute_payload ''q'' [(''v1'', PyList [PyDict [(''a'', UNSET), (''b'', PyInt 1)]])])
          [Key ''variables'', Key ''v1''] = Some (PyList ys) \<and> length ys = 1)
   \<and> \<not> has_unset_entry (PyDict [(''v'', PyStr ''Xyz'')])
   \<and> execute_payload ''q'' [(''v'', PyStr ''Xyz'')]
       = PyDict [(''query'', PyStr ''q''), (''variables'', PyDict [(''v'', PyStr ''Xyz'')])]"
  using
    execute_strips_unset [of "''q''"
      "[(''arg1'', UNSET), (''arg2'', UNSET), (''arg3'', PyNone), (''arg4'', PyInt 2)]"
      "[]" "[(''arg1'', UNSET), (''arg2'', UNSET), (''arg3'', PyNone), (''arg4'', PyInt 2)]"
      "''arg1''" "[]" PyNone]
    execute_strips_unset [of "''q''"
      "[(''arg1'', UNSET), (''arg2'', UNSET), (''arg3'', PyNone), (''arg4'', PyInt 2)]"
      "[Key ''arg3'']" "[]" "''arg1''" "[]" PyNone]
    execute_strips_unset [of "''q''"
      "[(''v1'', PyList [PyDict [(''a'', UNSET), (''b'', PyInt 1)]])]"
      "[Key ''v1'', Index 0]" "[(''a'', UNSET), (''b'', PyInt 1)]" "''a''" "[]" PyNone]
    execute_strips_unset [of "''q''"
      "[(''v1'', PyList [PyDict [(''a'', UNSET), (''b'', PyInt 1)]])]"
      "[Key ''v1'']" "[]" "''a''" "[PyDict [(''a'', UNSET), (''b'', PyInt 1)]]" PyNone]
    execute_strips_unset [of "''q''" "[(''v'', PyStr ''Xyz'')]" "[]" "[]" "''v''" "[]" PyNone]
  by simp

subsection \<open>Classifying a response\<close>

text \<open>
  C7. A response whose status is not 2xx fails with \<open>HttpError\<close> carrying the status
  code and the raw body, whatever the parser would make of the body: the status is
  checked before the body is parsed, so a body that does not parse gives
  \<open>HttpError\<close> too.
\<close>

theorem get_data_http_error:
  assumes "\<not> is_success response"
  shows "get_data parse response = Inl (HttpError (status_code response) (content response))"
  using assms by (simp add: get_data_def)

theorem get_data_http_error_witness:
  "\<not> is_success \<lparr>status_code = 404, content = ''invalid_json''\<rparr>
   \<and> get_data (\<lambda>b. None) \<lparr>status_code = 404, content = ''invalid_json''\<rparr>
       = Inl (HttpError 404 ''invalid_json'')"
  using get_data_http_error [of "\<lparr>status_code = 404, content = ''invalid_json''\<rparr>" "\<lambda>b. None"]
  by (simp add: is_success_def)

text \<open>
  C6. For a 2xx response, \<^verbatim>\<open>get_data\<close> fails with \<open>InvalidResponseError\<close> when the
  body does not parse, and when the parsed body has no \<open>data\<close> key; when the body has
  a \<open>data\<close> key and reports no errors, it returns the value under \<open>data\<close>, which
  may be the empty mapping.
\<close>

theorem get_data_invalid_response:
  assumes "is_success response"
  shows "(parse (content response) = None \<longrightarrow>
            get_data parse response = Inl InvalidResponseError)
       \<and> (parse (content response) = Some v \<and> data_of v = None \<longrightarrow>
            get_data parse response = Inl InvalidResponseError)
       \<and> (parse (content response) = Some v \<and> data_of v = Some d \<and> reported_errors v = [] \<longrightarrow>
            get_data parse response = Inr d)
       \<and> (parse (content response) = Some (PyDict [(''data'', PyDict [])]) \<longrightarrow>
            get_data parse response = Inr (PyDict []))"
  using assms
  by (auto simp: get_data_def data_of_def reported_errors_def
      split: option.splits pyvalue.splits list.splits)

theorem get_data_invalid_response_witness:
  "is_success \<lparr>status_code = 200, content = ''<html>''\<rparr>
   \<and> get_data sample_parse \<lparr>status_code = 200, content = ''<html>''\<rparr> = Inl InvalidResponseError
   \<and> get_data sample_parse \<lparr>status_code = 200, content = ''not_data''\<rparr> = Inl InvalidResponseError
   \<and> get_data sample_parse \<lparr>status_code = 200, content = ''string''\<rparr> = Inl InvalidResponseError
   \<and> get_data sample_parse \<lparr>status_code = 200, content = ''errors_null''\<rparr> = Inr (PyDict [])
   \<and> get_data sample_parse \<lparr>status_code = 200, content = ''empty_data''\<rparr> = Inr (PyDict [])"
  using
    get_data_invalid_response [of "\<lparr>status_code = 200, content = ''<html>''\<rparr>" sample_parse]
    get_data_invalid_response [of "\<lparr>status_code = 200, content = ''not_data''\<rparr>" sample_parse
       "PyDict [(''not_data'', PyStr '''')]"]
    get_data_invalid_response [of "\<lparr>status_code = 200, content = ''string''\<rparr>" sample_parse
       "PyStr ''invalid_json''"]
    get_data_invalid_response [of "\<lparr>status_code = 200, content = ''errors_null''\<rparr>" sample_parse
       "PyDict [(''errors'', PyNone), (''data'', PyDict [])]" "PyDict []"]
    get_data_invalid_response [of "\<lparr>status_code = 200, content = ''empty_data''\<rparr>" sample_parse]
  by (simp add: is_success_def sample_parse_def data_of_def reported_errors_def)

text \<open>
  C3. For a 2xx response whose parsed body is a mapping with a \<open>data\<close> key,
  \<^verbatim>\<open>get_data\<close> fails with \<open>GraphQLMultiError\<close> exactly when the \<open>errors\<close> entry is
  a list of one or more entries, and the error carries all of them; \<open>data\<close> being
  present, empty or not, does not prevent it. When \<open>errors\<close> is the empty list, null
  or missing, the \<open>data\<close> value is returned.
\<close>

theorem get_data_multi_error:
  assumes "is_success response"
    and "parse (content response) = Some (PyDict kvs)"
    and "map_of kvs ''data'' = Some d"
  shows "((\<exists>es. get_data parse response = Inl (GraphQLMultiError es))
            \<longleftrightarrow> (\<exists>e es. map_of kvs ''errors'' = Some (PyList (e # es))))
       \<and> (map_of kvs ''errors'' = Some (PyList (e # es)) \<longrightarrow>
            get_data parse response = Inl (GraphQLMultiError (e # es)))
       \<and> (map_of kvs ''errors'' = Some (PyList []) \<or> map_of kvs ''errors'' = Some PyNone
            \<or> map_of kvs ''errors'' = None \<longrightarrow>
            get_data parse response = Inr d)"
  using assms
  by (auto simp: get_data_def split: option.splits pyvalue.splits list.splits)

theorem get_data_multi_error_witness:
  "is_success \<lparr>status_code = 200, content = ''one_error''\<rparr>
   \<and> sample_parse ''one_error'' =
       Some (PyDict [(''data'', PyDict [(''node'', PyInt 1)]),
                     (''errors'', PyList [PyDict [(''message'', PyStr ''boom'')]])])
   \<and> get_data sample_parse \<lparr>status_code = 200, content = ''one_error''\<rparr>
       = Inl (GraphQLMultiError [PyDict [(''message'', PyStr ''boom'')]])
   \<and> get_data sample_parse \<lparr>status_code = 200, content = ''errors_empty''\<rparr> = Inr (PyDict [])
   \<and> get_data sample_parse \<lparr>status_code = 200, content = ''errors_null''\<rparr> = Inr (PyDict [])"
  using
    get_data_multi_error [of "\<lparr>status_code = 200, content = ''one_error''\<rparr>" sample_parse
      "[(''data'', PyDict [(''node'', PyInt 1)]),
        (''errors'', PyList [PyDict [(''message'', PyStr ''boom'')]])]"
      "PyDict [(''node'', PyInt 1)]" "PyDict [(''message'', PyStr ''boom'')]" "[]"]
    get_data_multi_error [of "\<lparr>status_code = 200, content = ''errors_empty''\<rparr>" sample_parse
      "[(''errors'', PyList []), (''data'', PyDict [])]" "PyDict []"]
    get_data_multi_error [of "\<lparr>status_code = 200, content = ''errors_null''\<rparr>" sample_parse
      "[(''errors'', PyNone), (''data'', PyDict [])]" "PyDict []"]
  by (simp add: is_success_def sample_parse_def)

end
